theory Spec2Isabelle
  imports Main "HOL-Library.AList" "HOL-Library.Multiset"
begin

section \<open>Exceptions and values\<close>

text \<open>
  Every \<^verbatim>\<open>raise\<close> of \<^verbatim>\<open>improvar/__init__.py\<close>, and every exception the Python
  runtime raises on the paths modelled here, is a value of \<open>error\<close>; a function that can
  raise returns \<open>error + 'a\<close> with \<open>Inl\<close> for the exception.  \<open>PyException\<close> is the bare
  \<^verbatim>\<open>Exception\<close> that \<^verbatim>\<open>random_contig\<close> raises when no contig is left.
\<close>

datatype error =
    NotImplementedError
  | ValueError
  | PyException
  | AttributeError
  | TypeError
  | IndexError
  | KeyError

definition ebind :: "error + 'a \<Rightarrow> ('a \<Rightarrow> error + 'b) \<Rightarrow> error + 'b" where
  "ebind m f = (case m of Inl e \<Rightarrow> Inl e | Inr x \<Rightarrow> f x)"

text \<open>
  The values a field tuple holds.  \<open>PyFloat k\<close> stands for the float \<open>k / 2 ^ 53\<close> that
  \<^verbatim>\<open>random.random()\<close> returns; a Character is a \<open>PyStr\<close> of one character.
\<close>

datatype pyval = PyInt int | PyFloat nat | PyStr string

section \<open>The random source\<close>

text \<open>
  The process-global generator of the \<^verbatim>\<open>random\<close> module is threaded explicitly: the
  state is the sequence of raw draws still to come, and every library call that draws
  returns the advanced state.  \<open>randbelow n\<close> is the library's primitive for an index
  below \<open>n\<close>; each call consumes exactly one raw draw.
\<close>

type_synonym rng = "nat \<Rightarrow> nat"

definition advance :: "rng \<Rightarrow> rng" where
  "advance g = (\<lambda>i. g (Suc i))"

definition randbelow :: "nat \<Rightarrow> rng \<Rightarrow> nat \<times> rng" where
  "randbelow n g = (g 0 mod n, advance g)"

text \<open>\<^verbatim>\<open>random.choice(seq)\<close>: \<^verbatim>\<open>IndexError\<close> on an empty sequence.\<close>

definition choice :: "'a list \<Rightarrow> rng \<Rightarrow> error + ('a \<times> rng)" where
  "choice seq g =
     (if seq = [] then Inl IndexError
      else (let (i, g') = randbelow (length seq) g in Inr (seq ! i, g')))"

text \<open>\<^verbatim>\<open>random.randint(a, b)\<close>: \<^verbatim>\<open>ValueError\<close> on an empty range.\<close>

definition randint :: "int \<Rightarrow> int \<Rightarrow> rng \<Rightarrow> error + (int \<times> rng)" where
  "randint a b g =
     (if b < a then Inl ValueError
      else (let (i, g') = randbelow (nat (b - a + 1)) g in Inr (a + int i, g')))"

text \<open>\<^verbatim>\<open>random.random()\<close>: the numerator of a float in \<open>[0, 1)\<close>.\<close>

definition random_float :: "rng \<Rightarrow> nat \<times> rng" where
  "random_float g = randbelow (2 ^ 53) g"

text \<open>\<^verbatim>\<open>random.choices(population, k=k)\<close>: \<open>k\<close> draws with replacement.\<close>

fun choices :: "'a list \<Rightarrow> nat \<Rightarrow> rng \<Rightarrow> error + ('a list \<times> rng)" where
  "choices population 0 g = Inr ([], g)"
| "choices population (Suc k) g =
     (if population = [] then Inl IndexError
      else (let (i, g') = randbelow (length population) g in
            ebind (choices population k g') (\<lambda>(rest, g'').
              Inr (population ! i # rest, g''))))"

text \<open>
  \<^verbatim>\<open>random.shuffle(x)\<close>: for \<open>i\<close> from \<open>len(x) - 1\<close> down to \<open>1\<close>, swap \<open>x[i]\<close> with
  \<open>x[j]\<close> for a random \<open>j \<le> i\<close>.  \<open>shuffle_from n\<close> runs the iterations \<open>i = n, ..., 1\<close>.
\<close>

fun shuffle_from :: "nat \<Rightarrow> 'a list \<Rightarrow> rng \<Rightarrow> 'a list \<times> rng" where
  "shuffle_from 0 x g = (x, g)"
| "shuffle_from (Suc i) x g =
     (let (j, g') = randbelow (Suc i + 1) g in
      shuffle_from i (x[Suc i := x ! j, j := x ! Suc i]) g')"

definition shuffle :: "'a list \<Rightarrow> rng \<Rightarrow> 'a list \<times> rng" where
  "shuffle x g = shuffle_from (length x - 1) x g"

section \<open>itertools and range\<close>

text \<open>\<^verbatim>\<open>range(a, b)\<close> as the list of its integers.\<close>

definition range2 :: "int \<Rightarrow> int \<Rightarrow> int list" where
  "range2 a b = map (\<lambda>i. a + int i) [0 ..< nat (b - a)]"

text \<open>
  \<^verbatim>\<open>itertools.combinations_with_replacement(iterable, r)\<close>, in the order the library
  emits them; a negative \<open>r\<close> is a \<^verbatim>\<open>ValueError\<close>.
\<close>

fun cwr :: "'a list \<Rightarrow> nat \<Rightarrow> 'a list list" where
  "cwr xs 0 = [[]]"
| "cwr [] (Suc r) = []"
| "cwr (x # xs) (Suc r) = map ((#) x) (cwr (x # xs) r) @ cwr xs (Suc r)"

definition combinations_with_replacement :: "'a list \<Rightarrow> int \<Rightarrow> error + 'a list list" where
  "combinations_with_replacement xs r =
     (if r < 0 then Inl ValueError else Inr (cwr xs (nat r)))"

section \<open>Headers and records\<close>

text \<open>
  The objects of the format library that the generator reads and writes.  A header
  holds its contigs, INFO definitions, FORMAT definitions and sample names, each in
  header order.  The \<^verbatim>\<open>number\<close> of a field definition is either an integer or one of
  the format's specifier strings.  A record carries its REF allele and its ALT alleles;
  \<open>alleles\<close> is REF followed by the ALTs, \<open>alts\<close> the ALTs alone.
\<close>

datatype GenotypeOption = HOM_REF | HOM_ALT | HET

text \<open>
  What a caller can pass as \<^verbatim>\<open>gt_opts\<close>: \<^verbatim>\<open>None\<close> (the default), a member of the
  enumeration, or any other object, which compares unequal to every member.
\<close>

datatype gt_arg = GtNone | GtOpt GenotypeOption | GtOther string

datatype header_number = Num int | Spec string

record field_def =
  number :: header_number
  ftype :: string

record contig_def =
  contig_name :: string
  contig_length :: int

record variant_header =
  contigs :: "(string \<times> contig_def) list"
  info_defs :: "(string \<times> field_def) list"
  formats :: "(string \<times> field_def) list"
  sample_names :: "string list"

record variant_record =
  header :: variant_header
  contig :: string
  start :: int
  ref :: string
  alts :: "string list"
  info :: "(string \<times> pyval list) list"
  samples :: "(string \<times> (string \<times> pyval list) list) list"

definition alleles :: "variant_record \<Rightarrow> string list" where
  "alleles r = ref r # alts r"

text \<open>Subscripting a mapping: \<^verbatim>\<open>KeyError\<close> when the key is absent.\<close>

definition getitem :: "(string \<times> 'a) list \<Rightarrow> string \<Rightarrow> error + 'a" where
  "getitem m k = (case map_of m k of None \<Rightarrow> Inl KeyError | Some v \<Rightarrow> Inr v)"

text \<open>
  \<^verbatim>\<open>record.header.formats[key]\<close> when the section is \<^verbatim>\<open>'fmt'\<close>, otherwise
  \<^verbatim>\<open>record.header.info[key]\<close>.
\<close>

definition field_lookup :: "variant_record \<Rightarrow> string \<Rightarrow> string \<Rightarrow> error + field_def" where
  "field_lookup record section key =
     (if section = ''fmt'' then getitem (formats (header record)) key
      else getitem (info_defs (header record)) key)"

section \<open>calc_multiplicity\<close>

definition calc_multiplicity :: "string \<Rightarrow> variant_record \<Rightarrow> string \<Rightarrow> error + int option" where
  "calc_multiplicity key record section =
     ebind (field_lookup record section key) (\<lambda>fd.
       let header_mult = number fd in
       if key = ''GT'' then Inr (Some 1)
       else (case header_mult of
               Num n \<Rightarrow> Inr (Some n)
             | Spec s \<Rightarrow>
                 if s = ''A'' then Inr (Some (int (length (alts record))))
                 else if s = ''R'' then Inr (Some (int (length (alleles record))))
                 else if s = ''.'' then Inr None
                 else Inl NotImplementedError))"

section \<open>data_from_vcf_type\<close>

definition char_set :: string where
  "char_set = ''ABCDEFGHIJKLMNOPQRSTUVWXYZabcdefghijklmnopqrstuvwxyz''"

text \<open>
  The branch for the per-sample genotype field (\<^verbatim>\<open>section == 'fmt' and key == 'GT'\<close>):
  the list \<^verbatim>\<open>gt\<close> it builds.  The comparisons with the members of the enumeration are
  tried in the order HET, HOM_ALT, HOM_REF; every other argument takes the \<^verbatim>\<open>else\<close>.
\<close>

definition gt_branch :: "variant_record \<Rightarrow> gt_arg \<Rightarrow> rng \<Rightarrow> error + (int list \<times> rng)" where
  "gt_branch record gt_opts g =
     (let n = int (length (alleles record)) in
      if gt_opts = GtOpt HET then
        ebind (combinations_with_replacement (range2 1 n) (n - 1)) (\<lambda>combs.
        ebind (choice combs g) (\<lambda>(c, g').
          Inr (shuffle (0 # c) g')))
      else if gt_opts = GtOpt HOM_ALT then Inr (replicate (nat n) 1, g)
      else if gt_opts = GtOpt HOM_REF then Inr (replicate (nat n) 0, g)
      else
        ebind (combinations_with_replacement (range2 0 n) n) (\<lambda>combs.
          choice combs g))"

text \<open>
  The loop \<^verbatim>\<open>for i in range(multiplicity)\<close>; the first argument after the type counts
  the iterations left.  The five tests on the type are separate \<^verbatim>\<open>if\<close> statements, run
  one after the other in every iteration.
\<close>

fun results_loop :: "string \<Rightarrow> nat \<Rightarrow> pyval list \<Rightarrow> rng \<Rightarrow> error + (pyval list \<times> rng)" where
  "results_loop ty 0 results g = Inr (results, g)"
| "results_loop ty (Suc i) results g =
     ebind (if ty = ''Integer''
            then ebind (randint 0 100 g) (\<lambda>(v, g'). Inr (results @ [PyInt v], g'))
            else Inr (results, g)) (\<lambda>(results1, g1).
     ebind (if ty = ''Float''
            then (let (v, g') = random_float g1 in Inr (results1 @ [PyFloat v], g'))
            else Inr (results1, g1)) (\<lambda>(results2, g2).
     ebind (if ty = ''Flag'' then Inl NotImplementedError else Inr (results2, g2))
       (\<lambda>(results3, g3).
     ebind (if ty = ''Character''
            then ebind (choice char_set g3) (\<lambda>(c, g'). Inr (results3 @ [PyStr [c]], g'))
            else Inr (results3, g3)) (\<lambda>(results4, g4).
     ebind (if ty = ''String''
            then ebind (choices char_set 10 g4) (\<lambda>(s, g'). Inr (results4 @ [PyStr s], g'))
            else Inr (results4, g4)) (\<lambda>(results5, g5).
     results_loop ty i results5 g5)))))"

text \<open>
  \<^verbatim>\<open>range(multiplicity)\<close> raises \<^verbatim>\<open>TypeError\<close> when the multiplicity is \<^verbatim>\<open>None\<close> and is
  empty when it is zero or negative.
\<close>

definition data_from_vcf_type ::
  "string \<Rightarrow> variant_record \<Rightarrow> string \<Rightarrow> gt_arg \<Rightarrow> rng \<Rightarrow> error + (pyval list \<times> rng)" where
  "data_from_vcf_type key record section gt_opts g =
     ebind (calc_multiplicity key record section) (\<lambda>multiplicity.
     ebind (field_lookup record section key) (\<lambda>fd.
       let ty = ftype fd in
       if section = ''fmt'' \<and> key = ''GT'' then
         ebind (gt_branch record gt_opts g) (\<lambda>(gt, g'). Inr (map PyInt gt, g'))
       else (case multiplicity of
               None \<Rightarrow> Inl TypeError
             | Some m \<Rightarrow> results_loop ty (nat m) [] g)))"

section \<open>random_base and random_contig\<close>

definition bases :: "string list" where
  "bases = [''A'', ''T'', ''C'', ''G'', ''N'']"

definition random_base :: "rng \<Rightarrow> error + (string \<times> rng)" where
  "random_base g = choice bases g"

text \<open>
  A compiled regular expression is taken by what its \<^verbatim>\<open>match\<close> method decides: whether
  the pattern matches at the start of the string.  An optional pattern is \<^verbatim>\<open>None\<close> or a
  pattern; calling \<^verbatim>\<open>match\<close> on \<^verbatim>\<open>None\<close> is an \<^verbatim>\<open>AttributeError\<close>.
\<close>

datatype pattern = Pattern (re_match: "string \<Rightarrow> bool")

definition py_match :: "pattern option \<Rightarrow> string \<Rightarrow> error + bool" where
  "py_match p s = (case p of None \<Rightarrow> Inl AttributeError | Some q \<Rightarrow> Inr (re_match q s))"

text \<open>The comprehension \<^verbatim>\<open>[contig for contig in contigs if p.match(contig)]\<close>.\<close>

fun matching :: "pattern option \<Rightarrow> string list \<Rightarrow> error + string list" where
  "matching p [] = Inr []"
| "matching p (c # cs) =
     ebind (py_match p c) (\<lambda>m.
     ebind (matching p cs) (\<lambda>rest.
       Inr (if m then c # rest else rest)))"

text \<open>
  The set of contig names is kept as a duplicate-free list; \<^verbatim>\<open>difference_update\<close> and
  \<^verbatim>\<open>intersection_update\<close> are the set operations on it.  Python fixes no order for
  the elements of a set: the list keeps the order of the header, and no statement below
  depends on it.
\<close>

definition difference_update :: "string list \<Rightarrow> string list \<Rightarrow> string list" where
  "difference_update s other = filter (\<lambda>x. x \<notin> set other) s"

definition intersection_update :: "string list \<Rightarrow> string list \<Rightarrow> string list" where
  "intersection_update s other = filter (\<lambda>x. x \<in> set other) s"

fun emap :: "('a \<Rightarrow> error + 'b) \<Rightarrow> 'a list \<Rightarrow> error + 'b list" where
  "emap f [] = Inr []"
| "emap f (x # xs) = ebind (f x) (\<lambda>y. ebind (emap f xs) (\<lambda>ys. Inr (y # ys)))"

definition random_contig ::
  "variant_header \<Rightarrow> pattern option \<Rightarrow> pattern option \<Rightarrow> rng \<Rightarrow> error + (contig_def \<times> rng)" where
  "random_contig hdr contig_exclude contig_include g =
     (let contigs0 = remdups (map fst (contigs hdr)) in
      if contig_exclude \<noteq> None \<and> contig_include \<noteq> None then Inl ValueError
      else
        ebind (if contig_exclude \<noteq> None
               then ebind (matching contig_exclude contigs0) (\<lambda>ms.
                      Inr (difference_update contigs0 ms))
               else Inr contigs0) (\<lambda>contigs1.
        ebind (if contig_include \<noteq> None
               then ebind (matching contig_exclude contigs1) (\<lambda>ms.
                      Inr (intersection_update contigs1 ms))
               else Inr contigs1) (\<lambda>contigs2.
          if length contigs2 = 0 then Inl PyException
          else ebind (emap (getitem (contigs hdr)) contigs2) (\<lambda>cs. choice cs g))))"

section \<open>generate_record\<close>

text \<open>
  \<^verbatim>\<open>header.new_record(contig=..., alleles=..., start=...)\<close>: a record of the header with
  no INFO value and, for every sample of the header, no FORMAT value.  The first allele
  is REF; a record without one is refused.  Whatever else the format library checks
  when a record is built or a value is assigned to it is outside this model: an
  assignment stores the tuple under its key.
\<close>

definition new_record ::
  "variant_header \<Rightarrow> string \<Rightarrow> string list \<Rightarrow> int \<Rightarrow> error + variant_record" where
  "new_record hdr c als s =
     (case als of
        [] \<Rightarrow> Inl ValueError
      | a # rest \<Rightarrow>
          Inr \<lparr>header = hdr, contig = c, start = s, ref = a, alts = rest, info = [],
               samples = map (\<lambda>n. (n, [])) (sample_names hdr)\<rparr>)"

fun info_loop ::
  "string list \<Rightarrow> gt_arg \<Rightarrow> variant_record \<Rightarrow> rng \<Rightarrow> error + (variant_record \<times> rng)" where
  "info_loop [] gt_opts record g = Inr (record, g)"
| "info_loop (k # ks) gt_opts record g =
     (if k = ''END'' then info_loop ks gt_opts record g
      else ebind (data_from_vcf_type k record ''info'' gt_opts g) (\<lambda>(v, g').
             info_loop ks gt_opts (record\<lparr>info := AList.update k v (info record)\<rparr>) g'))"

fun fmt_loop ::
  "string \<Rightarrow> string list \<Rightarrow> gt_arg \<Rightarrow> variant_record \<Rightarrow> rng
     \<Rightarrow> error + (variant_record \<times> rng)" where
  "fmt_loop sample [] gt_opts record g = Inr (record, g)"
| "fmt_loop sample (f # fs) gt_opts record g =
     ebind (data_from_vcf_type f record ''fmt'' gt_opts g) (\<lambda>(v, g').
     ebind (getitem (samples record) sample) (\<lambda>vals.
       fmt_loop sample fs gt_opts
         (record\<lparr>samples := AList.update sample (AList.update f v vals) (samples record)\<rparr>)
         g'))"

fun samples_loop ::
  "string list \<Rightarrow> gt_arg \<Rightarrow> variant_record \<Rightarrow> rng \<Rightarrow> error + (variant_record \<times> rng)" where
  "samples_loop [] gt_opts record g = Inr (record, g)"
| "samples_loop (sample # rest) gt_opts record g =
     ebind (fmt_loop sample (map fst (formats (header record))) gt_opts record g)
       (\<lambda>(record', g'). samples_loop rest gt_opts record' g')"

text \<open>
  The arguments of \<^verbatim>\<open>new_record\<close> are evaluated left to right: the two bases are drawn
  before the start position.
\<close>

definition generate_record ::
  "variant_header \<Rightarrow> pattern option \<Rightarrow> pattern option \<Rightarrow> gt_arg \<Rightarrow> rng
     \<Rightarrow> error + (variant_record \<times> rng)" where
  "generate_record hdr contig_exclude contig_include gt_opts g =
     ebind (random_contig hdr contig_exclude contig_include g) (\<lambda>(c, g1).
     ebind (random_base g1) (\<lambda>(b1, g2).
     ebind (random_base g2) (\<lambda>(b2, g3).
     ebind (randint 1 (contig_length c) g3) (\<lambda>(s, g4).
     ebind (new_record hdr (contig_name c) [b1, b2] s) (\<lambda>record.
     ebind (info_loop (map fst (info_defs hdr)) gt_opts record g4) (\<lambda>(record1, g5).
       samples_loop (map fst (samples record1)) gt_opts record1 g5))))))"

section \<open>Worked examples\<close>

text \<open>
  A random source given by its first draws (all later draws are 0), a pattern that
  matches a literal prefix, and a small header with a record over it.
\<close>

fun rng_of_list :: "nat list \<Rightarrow> rng" where
  "rng_of_list [] i = 0"
| "rng_of_list (x # xs) 0 = x"
| "rng_of_list (x # xs) (Suc i) = rng_of_list xs i"

definition starts_with :: "string \<Rightarrow> string \<Rightarrow> bool" where
  "starts_with p s = (take (length p) s = p)"

definition example_header :: variant_header where
  "example_header =
     \<lparr>contigs = [(''chr1'', \<lparr>contig_name = ''chr1'', contig_length = 1000\<rparr>),
                 (''chr2'', \<lparr>contig_name = ''chr2'', contig_length = 500\<rparr>)],
      info_defs = [(''DP'', \<lparr>number = Num 1, ftype = ''Integer''\<rparr>),
                   (''DB'', \<lparr>number = Num 0, ftype = ''Flag''\<rparr>),
                   (''AF'', \<lparr>number = Spec ''A'', ftype = ''Float''\<rparr>),
                   (''XX'', \<lparr>number = Num 1, ftype = ''Foo''\<rparr>),
                   (''END'', \<lparr>number = Num 1, ftype = ''Integer''\<rparr>)],
      formats = [(''GT'', \<lparr>number = Num 1, ftype = ''String''\<rparr>),
                 (''AD'', \<lparr>number = Spec ''R'', ftype = ''Integer''\<rparr>)],
      sample_names = [''S1'']\<rparr>"

definition example_record :: variant_record where
  "example_record =
     \<lparr>header = example_header, contig = ''chr1'', start = 1, ref = ''A'', alts = [''A''],
      info = [], samples = [(''S1'', [])]\<rparr>"

definition example_generated :: variant_record where
  "example_generated =
     \<lparr>header = example_header, contig = ''chr1'', start = 1, ref = ''A'', alts = [''A''],
      info = [(''DP'', [PyInt 0]), (''DB'', []), (''AF'', [PyFloat 0]), (''XX'', [])],
      samples = [(''S1'', [(''GT'', [PyInt 0, PyInt 0]), (''AD'', [PyInt 0, PyInt 0])])]\<rparr>"

definition flag_record :: variant_record where
  "flag_record =
     example_record\<lparr>header :=
       example_header\<lparr>info_defs := [(''H2'', \<lparr>number = Num 2, ftype = ''Flag''\<rparr>)]\<rparr>\<rparr>"

section \<open>Properties of the library models\<close>

lemma ebind_Inr [simp]: "ebind (Inr x) f = f x" by (simp add: ebind_def)
lemma ebind_Inl [simp]: "ebind (Inl e) f = Inl e" by (simp add: ebind_def)

lemma ebind_eq_Inr:
  "ebind m f = Inr y \<longleftrightarrow> (\<exists>x. m = Inr x \<and> f x = Inr y)"
  by (cases m) simp_all

lemma cwr_length: "ys \<in> set (cwr xs r) \<Longrightarrow> length ys = r"
  by (induction xs r arbitrary: ys rule: cwr.induct) auto

lemma cwr_set: "ys \<in> set (cwr xs r) \<Longrightarrow> set ys \<subseteq> set xs"
  by (induction xs r arbitrary: ys rule: cwr.induct) fastforce+

lemma cwr_zero_nonempty: "cwr xs 0 \<noteq> []"
  by simp

lemma cwr_nonempty: "xs \<noteq> [] \<Longrightarrow> cwr xs r \<noteq> []"
  by (induction xs r rule: cwr.induct) auto

lemma choice_Inr:
  "seq \<noteq> [] \<Longrightarrow> choice seq g = Inr (seq ! (g 0 mod length seq), advance g)"
  by (simp add: choice_def randbelow_def)

lemma choice_mem:
  "choice seq g = Inr (x, g') \<Longrightarrow> x \<in> set seq"
  by (auto simp add: choice_def randbelow_def split: if_splits)

lemma shuffle_from_mset:
  "i < length x \<Longrightarrow> mset (fst (shuffle_from i x g)) = mset x"
proof (induction i arbitrary: x g)
  case 0
  then show ?case by simp
next
  case (Suc i)
  have j: "g 0 mod (Suc i + 1) < length x" using Suc.prems
    by (metis Suc_eq_plus1 mod_less_divisor order_less_le_trans zero_less_Suc Suc_leI)
  show ?case using Suc j by (simp add: randbelow_def mset_swap)
qed

lemma shuffle_mset: "mset (fst (shuffle x g)) = mset x"
proof (cases x)
  case Nil
  then show ?thesis by (simp add: shuffle_def)
next
  case (Cons a as)
  then show ?thesis by (simp add: shuffle_def shuffle_from_mset)
qed

lemma shuffle_Inr_props:
  "shuffle x g = (y, g') \<Longrightarrow> length y = length x \<and> set y = set x"
  using shuffle_mset [of x g] by (metis fst_conv mset_eq_setD size_mset)

lemma range2_nonempty: "a < b \<Longrightarrow> range2 a b \<noteq> []"
  by (simp add: range2_def)

lemma range2_set: "set (range2 a b) = {a ..< b}"
proof
  show "set (range2 a b) \<subseteq> {a ..< b}" by (auto simp add: range2_def)
  show "{a ..< b} \<subseteq> set (range2 a b)"
  proof
    fix x assume "x \<in> {a ..< b}"
    then have "x = a + int (nat (x - a))" "nat (x - a) < nat (b - a)" by auto
    then show "x \<in> set (range2 a b)" unfolding range2_def
      by (metis (mono_tags, lifting) atLeast0LessThan image_eqI lessThan_iff set_map set_upt)
  qed
qed

lemma gt_branch_het:
  "\<exists>c g1 gt g'. choice (cwr (range2 1 (int (length (alleles record)))) (length (alts record))) g = Inr (c, g1)
      \<and> shuffle (0 # c) g1 = (gt, g') \<and> gt_branch record (GtOpt HET) g = Inr (gt, g')"
proof -
  let ?n = "int (length (alleles record))"
  let ?combs = "cwr (range2 1 ?n) (length (alts record))"
  have ne: "?combs \<noteq> []"
  proof (cases "alts record")
    case Nil then show ?thesis by simp
  next
    case (Cons a as)
    then have "range2 1 ?n \<noteq> []" by (simp add: range2_def alleles_def)
    then show ?thesis by (rule cwr_nonempty)
  qed
  obtain c g1 where c: "choice ?combs g = Inr (c, g1)" using choice_Inr [OF ne] by blast
  obtain gt g' where s: "shuffle (0 # c) g1 = (gt, g')" by (cases "shuffle (0 # c) g1")
  have "gt_branch record (GtOpt HET) g = Inr (gt, g')"
    using c s by (simp add: gt_branch_def combinations_with_replacement_def alleles_def)
  then show ?thesis using c s by blast
qed

lemma gt_branch_else:
  "gt_opts \<noteq> GtOpt HET \<Longrightarrow> gt_opts \<noteq> GtOpt HOM_ALT \<Longrightarrow> gt_opts \<noteq> GtOpt HOM_REF \<Longrightarrow>
   gt_branch record gt_opts g =
     choice (cwr (range2 0 (int (length (alleles record)))) (length (alleles record))) g"
  by (simp add: gt_branch_def combinations_with_replacement_def)

lemma gt_branch_length:
  "\<exists>gt g'. gt_branch record gt_opts g = Inr (gt, g') \<and> length gt = length (alleles record)"
proof -
  consider (het) "gt_opts = GtOpt HET" | (alt) "gt_opts = GtOpt HOM_ALT"
    | (ref) "gt_opts = GtOpt HOM_REF"
    | (other) "gt_opts \<noteq> GtOpt HET" "gt_opts \<noteq> GtOpt HOM_ALT" "gt_opts \<noteq> GtOpt HOM_REF"
    by blast
  then show ?thesis
  proof cases
    case het
    obtain c g1 gt g' where
      c: "choice (cwr (range2 1 (int (length (alleles record)))) (length (alts record))) g = Inr (c, g1)"
      and s: "shuffle (0 # c) g1 = (gt, g')"
      and r: "gt_branch record (GtOpt HET) g = Inr (gt, g')"
      using gt_branch_het by blast
    have "length c = length (alts record)" using choice_mem [OF c] by (rule cwr_length)
    then have "length gt = length (alleles record)"
      using shuffle_Inr_props [OF s] by (simp add: alleles_def)
    then show ?thesis using r het by blast
  next
    case alt
    then show ?thesis by (simp add: gt_branch_def)
  next
    case ref
    then show ?thesis by (simp add: gt_branch_def)
  next
    case other
    let ?combs = "cwr (range2 0 (int (length (alleles record)))) (length (alleles record))"
    have "range2 0 (int (length (alleles record))) \<noteq> []" by (simp add: range2_def alleles_def)
    then have ne: "?combs \<noteq> []" by (rule cwr_nonempty)
    obtain c g1 where c: "choice ?combs g = Inr (c, g1)" using choice_Inr [OF ne] by blast
    have "length c = length (alleles record)" using choice_mem [OF c] by (rule cwr_length)
    then show ?thesis using c gt_branch_else [OF other] by simp
  qed
qed

lemma data_from_vcf_type_gt:
  "map_of (formats (header record)) ''GT'' = Some fd \<Longrightarrow>
   data_from_vcf_type ''GT'' record ''fmt'' gt_opts g =
     ebind (gt_branch record gt_opts g) (\<lambda>(gt, g'). Inr (map PyInt gt, g'))"
  by (simp add: data_from_vcf_type_def calc_multiplicity_def field_lookup_def getitem_def)

lemma choices_Inr:
  "population \<noteq> [] \<Longrightarrow> \<exists>xs g'. choices population k g = Inr (xs, g')"
proof (induction k arbitrary: g)
  case 0
  then show ?case by simp
next
  case (Suc k)
  obtain xs g' where "choices population k (advance g) = Inr (xs, g')"
    using Suc.IH [OF Suc.prems] by blast
  then show ?case using Suc.prems by (simp add: randbelow_def)
qed

lemma char_set_nonempty: "char_set \<noteq> []"
  by (simp add: char_set_def)

lemma results_loop_flag:
  "results_loop ''Flag'' (Suc i) results g = Inl NotImplementedError"
  by simp

lemma results_loop_unknown:
  "ty \<noteq> ''Integer'' \<Longrightarrow> ty \<noteq> ''Float'' \<Longrightarrow> ty \<noteq> ''Flag'' \<Longrightarrow> ty \<noteq> ''Character'' \<Longrightarrow>
   ty \<noteq> ''String'' \<Longrightarrow> results_loop ty i results g = Inr (results, g)"
  by (induction i) simp_all

lemma results_loop_step_Integer:
  "results_loop ''Integer'' (Suc i) results g =
     results_loop ''Integer'' i (results @ [PyInt (int (g 0 mod 101))]) (advance g)"
  by (simp add: randint_def randbelow_def)

lemma results_loop_step_Float:
  "results_loop ''Float'' (Suc i) results g =
     results_loop ''Float'' i (results @ [PyFloat (g 0 mod 2 ^ 53)]) (advance g)"
  by (simp add: random_float_def randbelow_def)

lemma results_loop_step_Character:
  "\<exists>c g'. results_loop ''Character'' (Suc i) results g =
     results_loop ''Character'' i (results @ [PyStr [c]]) g'"
  using choice_Inr [OF char_set_nonempty, of g] by (simp, blast)

lemma results_loop_step_String:
  "\<exists>s g'. results_loop ''String'' (Suc i) results g =
     results_loop ''String'' i (results @ [PyStr s]) g'"
proof -
  obtain s g' where "choices char_set 10 g = Inr (s, g')"
    using choices_Inr [OF char_set_nonempty] by blast
  then have "results_loop ''String'' (Suc i) results g =
     results_loop ''String'' i (results @ [PyStr s]) g'" by simp
  then show ?thesis by blast
qed

lemma results_loop_length:
  "ty = ''Integer'' \<or> ty = ''Float'' \<or> ty = ''Character'' \<or> ty = ''String'' \<Longrightarrow>
   \<exists>out g'. results_loop ty i results g = Inr (out, g') \<and> length out = length results + i"
proof (induction i arbitrary: results g)
  case 0
  then show ?case by simp
next
  case (Suc i)
  have "\<exists>v g1. results_loop ty (Suc i) results g = results_loop ty i (results @ [v]) g1"
    using Suc.prems results_loop_step_Integer results_loop_step_Float
      results_loop_step_Character [of i results g] results_loop_step_String [of i results g]
    by metis
  then obtain v g1 where
    step: "results_loop ty (Suc i) results g = results_loop ty i (results @ [v]) g1" by blast
  obtain out g' where "results_loop ty i (results @ [v]) g1 = Inr (out, g')"
    "length out = length (results @ [v]) + i" using Suc.IH [OF Suc.prems] by blast
  then show ?case using step by simp
qed

lemma data_from_vcf_type_loop:
  "\<not> (section = ''fmt'' \<and> key = ''GT'') \<Longrightarrow> field_lookup record section key = Inr fd \<Longrightarrow>
   calc_multiplicity key record section = Inr (Some m) \<Longrightarrow>
   data_from_vcf_type key record section gt_opts g = results_loop (ftype fd) (nat m) [] g"
  by (auto simp add: data_from_vcf_type_def)

lemma advance_rng_of_list_Nil [simp]: "advance (rng_of_list []) = rng_of_list []"
  by (rule ext) (simp add: advance_def)

lemma advance_rng_of_list_Cons [simp]: "advance (rng_of_list (x # xs)) = rng_of_list xs"
  by (rule ext) (simp add: advance_def)

lemma results_loop_numeral:
  "results_loop ty (numeral k) results g = results_loop ty (Suc (pred_numeral k)) results g"
  by (simp add: numeral_eq_Suc)

lemma replicate_two: "replicate 2 x = [x, x]"
  by (simp add: numeral_2_eq_2)

section \<open>The multiplicity of a field\<close>

text \<open>
  Claim C8.  For a field the header declares, \<open>calc_multiplicity\<close> returns 1 when the key
  is \<^verbatim>\<open>GT\<close>, whatever number the header declares; for every other key it returns an
  integer number unchanged, the number of ALT alleles for \<^verbatim>\<open>A\<close>, the number of all
  alleles for \<^verbatim>\<open>R\<close>, \<^verbatim>\<open>None\<close> for \<^verbatim>\<open>.\<close>, and raises \<^verbatim>\<open>NotImplementedError\<close> for any
  other specifier.
\<close>

theorem calc_multiplicity_cases:
  "map_of (if section = ''fmt'' then formats (header record) else info_defs (header record)) key = Some fd \<Longrightarrow>
   (key = ''GT'' \<longrightarrow> calc_multiplicity key record section = Inr (Some 1)) \<and>
   (key \<noteq> ''GT'' \<longrightarrow>
      (\<forall>n. number fd = Num n \<longrightarrow> calc_multiplicity key record section = Inr (Some n)) \<and>
      (number fd = Spec ''A'' \<longrightarrow>
         calc_multiplicity key record section = Inr (Some (int (length (alts record))))) \<and>
      (number fd = Spec ''R'' \<longrightarrow>
         calc_multiplicity key record section = Inr (Some (int (length (alleles record))))) \<and>
      (number fd = Spec ''.'' \<longrightarrow> calc_multiplicity key record section = Inr None) \<and>
      (\<forall>s. number fd = Spec s \<longrightarrow> s \<noteq> ''A'' \<longrightarrow> s \<noteq> ''R'' \<longrightarrow> s \<noteq> ''.'' \<longrightarrow>
         calc_multiplicity key record section = Inl NotImplementedError))"
  by (auto simp add: calc_multiplicity_def field_lookup_def getitem_def split: if_splits)

theorem calc_multiplicity_cases_witness:
  "map_of (if ''fmt'' = ''fmt'' then formats (header example_record)
           else info_defs (header example_record)) ''AD''
     = Some \<lparr>number = Spec ''R'', ftype = ''Integer''\<rparr> \<and>
   calc_multiplicity ''AD'' example_record ''fmt'' = Inr (Some 2)"
  using calc_multiplicity_cases [of "''fmt''" example_record "''AD''"
      "\<lparr>number = Spec ''R'', ftype = ''Integer''\<rparr>"]
  by (simp add: example_record_def example_header_def alleles_def)

section \<open>The genotype field\<close>

text \<open>
  Claim C6.  For every record whose header declares the FORMAT field \<^verbatim>\<open>GT\<close>, and for
  every value of \<^verbatim>\<open>gt_opts\<close>, synthesis of the per-sample genotype returns a tuple, and
  its length is the number of alleles of the record (REF and ALTs).
\<close>

theorem genotype_length:
  "map_of (formats (header record)) ''GT'' = Some fd \<Longrightarrow>
   \<exists>gt g'. data_from_vcf_type ''GT'' record ''fmt'' gt_opts g = Inr (gt, g')
      \<and> length gt = length (alleles record)"
proof -
  assume fd: "map_of (formats (header record)) ''GT'' = Some fd"
  obtain gt g' where "gt_branch record gt_opts g = Inr (gt, g')"
    "length gt = length (alleles record)" using gt_branch_length by blast
  then show ?thesis using data_from_vcf_type_gt [OF fd] by simp
qed

theorem genotype_length_witness:
  "map_of (formats (header example_record)) ''GT''
     = Some \<lparr>number = Num 1, ftype = ''String''\<rparr> \<and>
   (\<exists>gt g'. data_from_vcf_type ''GT'' example_record ''fmt'' GtNone (rng_of_list [])
       = Inr (gt, g') \<and> length gt = length (alleles example_record))"
  using genotype_length [of example_record "\<lparr>number = Num 1, ftype = ''String''\<rparr>"
      GtNone "rng_of_list []"]
  by (simp add: example_record_def example_header_def)



text \<open>
  Claim C4, as amended.  Genotype synthesis has no check of the mode.  For every record
  whose header declares the FORMAT field \<^verbatim>\<open>GT\<close>, an argument that is not a member of
  the enumeration takes the branch of \<^verbatim>\<open>None\<close>: synthesis raises nothing and returns
  the combination with replacement that \<^verbatim>\<open>random.choice\<close> picks among those of all
  allele indices, one index per allele, which is also what the unspecified mode returns
  from the same random source.
\<close>

theorem unrecognised_mode_returns_combination:
  "map_of (formats (header record)) ''GT'' = Some fd \<Longrightarrow>
   (\<exists>c g'. data_from_vcf_type ''GT'' record ''fmt'' (GtOther s) g = Inr (map PyInt c, g')
       \<and> choice (cwr (range2 0 (int (length (alleles record)))) (length (alleles record))) g
           = Inr (c, g')
       \<and> c \<in> set (cwr (range2 0 (int (length (alleles record)))) (length (alleles record)))
       \<and> length c = length (alleles record)
       \<and> set c \<subseteq> {0 ..< int (length (alleles record))}
       \<and> data_from_vcf_type ''GT'' record ''fmt'' GtNone g = Inr (map PyInt c, g'))"
proof -
  assume fd: "map_of (formats (header record)) ''GT'' = Some fd"
  let ?n = "length (alleles record)"
  let ?combs = "cwr (range2 0 (int ?n)) ?n"
  have "range2 0 (int ?n) \<noteq> []" by (simp add: range2_def alleles_def)
  then have ne: "?combs \<noteq> []" by (rule cwr_nonempty)
  obtain c g' where c: "choice ?combs g = Inr (c, g')" using choice_Inr [OF ne] by blast
  have mem: "c \<in> set ?combs" using c by (rule choice_mem)
  have len: "length c = ?n" using mem by (rule cwr_length)
  have sub: "set c \<subseteq> {0 ..< int ?n}" using cwr_set [OF mem] by (simp add: range2_set)
  have "gt_branch record (GtOther s) g = Inr (c, g')"
    using gt_branch_else [of "GtOther s"] c by simp
  then have other: "data_from_vcf_type ''GT'' record ''fmt'' (GtOther s) g
      = Inr (map PyInt c, g')"
    using data_from_vcf_type_gt [OF fd] by simp
  have "gt_branch record GtNone g = Inr (c, g')"
    using gt_branch_else [of GtNone] c by simp
  then have none: "data_from_vcf_type ''GT'' record ''fmt'' GtNone g = Inr (map PyInt c, g')"
    using data_from_vcf_type_gt [OF fd] by simp
  show ?thesis using c mem len sub other none by blast
qed

theorem unrecognised_mode_returns_combination_witness:
  "map_of (formats (header example_record)) ''GT''
     = Some \<lparr>number = Num 1, ftype = ''String''\<rparr> \<and>
   (\<exists>c g'. data_from_vcf_type ''GT'' example_record ''fmt'' (GtOther ''hom-ref'')
         (rng_of_list [4]) = Inr (map PyInt c, g')
       \<and> length c = length (alleles example_record)
       \<and> set c \<subseteq> {0 ..< int (length (alleles example_record))}
       \<and> data_from_vcf_type ''GT'' example_record ''fmt'' GtNone (rng_of_list [4])
           = Inr (map PyInt c, g'))"
proof -
  have fd: "map_of (formats (header example_record)) ''GT''
     = Some \<lparr>number = Num 1, ftype = ''String''\<rparr>"
    by (simp add: example_record_def example_header_def)
  show ?thesis
    using fd unrecognised_mode_returns_combination [OF fd, of "''hom-ref''" "rng_of_list [4]"]
    by blast
qed

text \<open>
  The claim as stated fails: with the argument \<^verbatim>\<open>'bogus'\<close> the genotype of a record of
  two alleles is the tuple \<open>(0, 0)\<close>, not an error.
\<close>

theorem unrecognised_mode_counterexample:
  "data_from_vcf_type ''GT'' example_record ''fmt'' (GtOther ''bogus'') (rng_of_list []) =
     Inr ([PyInt 0, PyInt 0], rng_of_list [])"
  by (simp add: example_record_def example_header_def getitem_def choice_def randbelow_def
      data_from_vcf_type_def calc_multiplicity_def field_lookup_def gt_branch_def alleles_def
      combinations_with_replacement_def range2_def numeral_2_eq_2 upt_rec)

section \<open>Values of the other fields\<close>

text \<open>
  What the loop does with the type \<^verbatim>\<open>Flag\<close>: for a field that is not the per-sample
  genotype and whose multiplicity is an integer \<open>m\<close>, synthesis raises
  \<^verbatim>\<open>NotImplementedError\<close> when \<open>m\<close> is positive, and returns the empty tuple, drawing
  nothing, when \<open>m\<close> is zero or negative.
\<close>

lemma flag_synthesis:
  "\<not> (section = ''fmt'' \<and> key = ''GT'') \<Longrightarrow> field_lookup record section key = Inr fd \<Longrightarrow>
   ftype fd = ''Flag'' \<Longrightarrow> calc_multiplicity key record section = Inr (Some m) \<Longrightarrow>
   (0 < m \<longrightarrow> data_from_vcf_type key record section gt_opts g = Inl NotImplementedError) \<and>
   (m \<le> 0 \<longrightarrow> data_from_vcf_type key record section gt_opts g = Inr ([], g))"
proof -
  assume a: "\<not> (section = ''fmt'' \<and> key = ''GT'')" "field_lookup record section key = Inr fd"
    "calc_multiplicity key record section = Inr (Some m)" and f: "ftype fd = ''Flag''"
  have eq: "data_from_vcf_type key record section gt_opts g = results_loop ''Flag'' (nat m) [] g"
    using data_from_vcf_type_loop [OF a] f by simp
  have "0 < m \<Longrightarrow> results_loop ''Flag'' (nat m) [] g = Inl NotImplementedError"
  proof -
    assume "0 < m"
    then obtain i where "nat m = Suc i" by (cases "nat m") auto
    then show ?thesis using results_loop_flag by simp
  qed
  then show ?thesis using eq by auto
qed

lemma flag_synthesis_example:
  "\<not> (''info'' = ''fmt'' \<and> ''H2'' = ''GT'') \<and>
   field_lookup flag_record ''info'' ''H2'' = Inr \<lparr>number = Num 2, ftype = ''Flag''\<rparr> \<and>
   calc_multiplicity ''H2'' flag_record ''info'' = Inr (Some 2) \<and>
   data_from_vcf_type ''H2'' flag_record ''info'' GtNone (rng_of_list []) =
     Inl NotImplementedError"
  using flag_synthesis [of "''info''" "''H2''" flag_record
      "\<lparr>number = Num 2, ftype = ''Flag''\<rparr>" 2 GtNone "rng_of_list []"]
  by (simp add: flag_record_def example_record_def example_header_def field_lookup_def
      getitem_def calc_multiplicity_def)

text \<open>
  Claim C2.  The code does not do what the claim says: the \<^verbatim>\<open>raise\<close> for \<^verbatim>\<open>Flag\<close> sits
  inside the loop over \<^verbatim>\<open>range(multiplicity)\<close>, so a \<^verbatim>\<open>Flag\<close> field declared with
  number 0, the declaration the format prescribes for flags, runs no iteration and gets
  the empty tuple instead of \<^verbatim>\<open>NotImplementedError\<close>.
\<close>

theorem flag_number_zero_returns_empty_tuple:
  "field_lookup example_record ''info'' ''DB'' = Inr \<lparr>number = Num 0, ftype = ''Flag''\<rparr> \<and>
   data_from_vcf_type ''DB'' example_record ''info'' GtNone (rng_of_list []) =
     Inr ([], rng_of_list [])"
  by (simp add: example_record_def example_header_def field_lookup_def getitem_def
      calc_multiplicity_def data_from_vcf_type_def)

text \<open>
  Claim C3, as amended.  For a field that is not the per-sample genotype, whose type is
  none of \<^verbatim>\<open>Integer\<close>, \<^verbatim>\<open>Float\<close>, \<^verbatim>\<open>Flag\<close>, \<^verbatim>\<open>Character\<close>, \<^verbatim>\<open>String\<close> and whose
  multiplicity is an integer, synthesis returns the empty tuple and draws nothing.
\<close>

theorem unknown_type_synthesis:
  "\<not> (section = ''fmt'' \<and> key = ''GT'') \<Longrightarrow> field_lookup record section key = Inr fd \<Longrightarrow>
   ftype fd \<notin> {''Integer'', ''Float'', ''Flag'', ''Character'', ''String''} \<Longrightarrow>
   calc_multiplicity key record section = Inr (Some m) \<Longrightarrow>
   data_from_vcf_type key record section gt_opts g = Inr ([], g)"
proof -
  assume a: "\<not> (section = ''fmt'' \<and> key = ''GT'')" "field_lookup record section key = Inr fd"
    "calc_multiplicity key record section = Inr (Some m)"
    and t: "ftype fd \<notin> {''Integer'', ''Float'', ''Flag'', ''Character'', ''String''}"
  from t have "results_loop (ftype fd) (nat m) [] g = Inr ([], g)"
    by (intro results_loop_unknown) auto
  then show ?thesis using data_from_vcf_type_loop [OF a] by simp
qed

theorem unknown_type_synthesis_witness:
  "\<not> (''info'' = ''fmt'' \<and> ''XX'' = ''GT'') \<and>
   field_lookup example_record ''info'' ''XX'' = Inr \<lparr>number = Num 1, ftype = ''Foo''\<rparr> \<and>
   ''Foo'' \<notin> {''Integer'', ''Float'', ''Flag'', ''Character'', ''String''} \<and>
   calc_multiplicity ''XX'' example_record ''info'' = Inr (Some 1) \<and>
   data_from_vcf_type ''XX'' example_record ''info'' (GtOpt HET) (rng_of_list [7]) =
     Inr ([], rng_of_list [7])"
  using unknown_type_synthesis [of "''info''" "''XX''" example_record
      "\<lparr>number = Num 1, ftype = ''Foo''\<rparr>" 1 "GtOpt HET" "rng_of_list [7]"]
  by (simp add: example_record_def example_header_def field_lookup_def getitem_def
      calc_multiplicity_def)

text \<open>
  The claim as stated fails: a field of the unknown type \<^verbatim>\<open>Foo\<close> with number 1 gets the
  empty tuple, not an error.
\<close>

theorem unknown_type_counterexample:
  "field_lookup example_record ''info'' ''XX'' = Inr \<lparr>number = Num 1, ftype = ''Foo''\<rparr> \<and>
   data_from_vcf_type ''XX'' example_record ''info'' GtNone (rng_of_list []) =
     Inr ([], rng_of_list [])"
  by (simp add: example_record_def example_header_def field_lookup_def getitem_def
      calc_multiplicity_def data_from_vcf_type_def)

text \<open>
  Claim C5, as amended.  For a field that is not the per-sample genotype and whose type
  is \<^verbatim>\<open>Integer\<close>, \<^verbatim>\<open>Float\<close>, \<^verbatim>\<open>Character\<close> or \<^verbatim>\<open>String\<close>: when the multiplicity is an
  integer \<open>m \<ge> 0\<close>, synthesis returns a tuple of length \<open>m\<close>; in particular, when the key is
  not \<^verbatim>\<open>GT\<close> and the header declares the integer \<open>k\<close>, the tuple has length \<open>k\<close>.
\<close>

theorem tuple_length:
  "\<not> (section = ''fmt'' \<and> key = ''GT'') \<Longrightarrow> field_lookup record section key = Inr fd \<Longrightarrow>
   ftype fd \<in> {''Integer'', ''Float'', ''Character'', ''String''} \<Longrightarrow>
   calc_multiplicity key record section = Inr (Some m) \<Longrightarrow> 0 \<le> m \<Longrightarrow>
   (\<exists>out g'. data_from_vcf_type key record section gt_opts g = Inr (out, g')
       \<and> int (length out) = m) \<and>
   (\<forall>k. key \<noteq> ''GT'' \<longrightarrow> number fd = Num k \<longrightarrow>
      (\<exists>out g'. data_from_vcf_type key record section gt_opts g = Inr (out, g')
         \<and> int (length out) = k))"
proof -
  assume a: "\<not> (section = ''fmt'' \<and> key = ''GT'')" "field_lookup record section key = Inr fd"
    "calc_multiplicity key record section = Inr (Some m)"
    and t: "ftype fd \<in> {''Integer'', ''Float'', ''Character'', ''String''}" and m: "0 \<le> m"
  from t have "ftype fd = ''Integer'' \<or> ftype fd = ''Float'' \<or> ftype fd = ''Character''
     \<or> ftype fd = ''String''" by simp
  then obtain out g' where "results_loop (ftype fd) (nat m) [] g = Inr (out, g')"
    "length out = length ([] :: pyval list) + nat m" using results_loop_length by blast
  then have 1: "\<exists>out g'. data_from_vcf_type key record section gt_opts g = Inr (out, g')
       \<and> int (length out) = m" using data_from_vcf_type_loop [OF a] m by simp
  have 2: "\<forall>k. key \<noteq> ''GT'' \<longrightarrow> number fd = Num k \<longrightarrow> m = k"
    using a(2,3) by (auto simp add: calc_multiplicity_def)
  show ?thesis using 1 2 by blast
qed

theorem tuple_length_witness:
  "\<not> (''fmt'' = ''fmt'' \<and> ''AD'' = ''GT'') \<and>
   field_lookup example_record ''fmt'' ''AD''
     = Inr \<lparr>number = Spec ''R'', ftype = ''Integer''\<rparr> \<and>
   calc_multiplicity ''AD'' example_record ''fmt'' = Inr (Some 2) \<and>
   (\<exists>out g'. data_from_vcf_type ''AD'' example_record ''fmt'' GtNone (rng_of_list [])
       = Inr (out, g') \<and> int (length out) = 2)"
  using tuple_length [of "''fmt''" "''AD''" example_record
      "\<lparr>number = Spec ''R'', ftype = ''Integer''\<rparr>" 2 GtNone "rng_of_list []"]
  by (simp add: example_record_def example_header_def field_lookup_def getitem_def
      calc_multiplicity_def alleles_def)

text \<open>
  The claim as stated fails for the per-sample genotype: its multiplicity is 1, and on a
  record of two alleles its tuple has length 2.
\<close>

theorem genotype_tuple_length_counterexample:
  "calc_multiplicity ''GT'' example_record ''fmt'' = Inr (Some 1) \<and>
   data_from_vcf_type ''GT'' example_record ''fmt'' (GtOpt HOM_REF) (rng_of_list []) =
     Inr ([PyInt 0, PyInt 0], rng_of_list [])"
  by (simp add: example_record_def example_header_def field_lookup_def getitem_def
      calc_multiplicity_def data_from_vcf_type_def gt_branch_def alleles_def replicate_two)

section \<open>The choice of a contig\<close>

text \<open>
  Claim C9.  With both an exclude pattern and an include pattern, \<open>random_contig\<close> raises
  \<^verbatim>\<open>ValueError\<close>, whatever the header, the patterns and the random source are.
\<close>

theorem random_contig_both_filters:
  "random_contig hdr (Some ex) (Some inc) g = Inl ValueError"
  by (simp add: random_contig_def)

lemma random_contig_include_alone:
  "contigs hdr \<noteq> [] \<Longrightarrow> random_contig hdr None (Some inc) g = Inl AttributeError"
proof -
  assume "contigs hdr \<noteq> []"
  then obtain n ns where "remdups (map fst (contigs hdr)) = n # ns"
    by (cases "remdups (map fst (contigs hdr))") auto
  then show ?thesis by (simp add: random_contig_def py_match_def)
qed

lemma random_contig_include_alone_empty:
  "contigs hdr = [] \<Longrightarrow> random_contig hdr None (Some inc) g = Inl PyException"
  by (simp add: random_contig_def intersection_update_def)

lemma random_contig_exclude_alone_example:
  "random_contig example_header (Some (Pattern (starts_with ''chr1''))) None (rng_of_list [])
     = Inr (\<lparr>contig_name = ''chr2'', contig_length = 500\<rparr>, rng_of_list [])"
  by (simp add: random_contig_def example_header_def py_match_def starts_with_def
      difference_update_def getitem_def choice_def randbelow_def)

text \<open>
  Claim C1.  The code does not do what the claim says: with an include pattern alone,
  the comprehension calls \<^verbatim>\<open>match\<close> on the exclude pattern, which is \<^verbatim>\<open>None\<close>, so every
  header with a contig ends in \<^verbatim>\<open>AttributeError\<close>; a header without contigs ends in the
  exception for no valid contig.
\<close>

theorem random_contig_include_only_fails:
  "random_contig example_header None (Some (Pattern (starts_with ''chr''))) (rng_of_list [])
     = Inl AttributeError"
  by (simp add: random_contig_def example_header_def py_match_def)

section \<open>The alleles of a generated record\<close>

lemma info_loop_alleles:
  "info_loop ks gt_opts r g = Inr (r', g') \<Longrightarrow>
   ref r' = ref r \<and> alts r' = alts r"
proof (induction ks arbitrary: r g)
  case Nil
  then show ?case by simp
next
  case (Cons k ks)
  show ?case
  proof (cases "k = ''END''")
    case True
    then show ?thesis using Cons by simp
  next
    case False
    then obtain v g1 where
      "info_loop ks gt_opts (r\<lparr>info := AList.update k v (info r)\<rparr>) g1
         = Inr (r', g')"
      using Cons.prems by (auto simp add: ebind_eq_Inr)
    from Cons.IH [OF this] show ?thesis by simp
  qed
qed

lemma fmt_loop_alleles:
  "fmt_loop sample fs gt_opts r g = Inr (r', g') \<Longrightarrow>
   ref r' = ref r \<and> alts r' = alts r"
proof (induction fs arbitrary: r g)
  case Nil
  then show ?case by simp
next
  case (Cons f fs)
  then obtain v g1 vals where
    "fmt_loop sample fs gt_opts
       (r\<lparr>samples := AList.update sample (AList.update f v vals) (samples r)\<rparr>) g1
       = Inr (r', g')"
    by (auto simp add: ebind_eq_Inr)
  from Cons.IH [OF this] show ?case by simp
qed

lemma samples_loop_alleles:
  "samples_loop ss gt_opts r g = Inr (r', g') \<Longrightarrow>
   ref r' = ref r \<and> alts r' = alts r"
proof (induction ss arbitrary: r g)
  case Nil
  then show ?case by simp
next
  case (Cons s ss)
  then obtain q g1 where
    f: "fmt_loop s (map fst (formats (header r))) gt_opts r g = Inr (q, g1)"
    and l: "samples_loop ss gt_opts q g1 = Inr (r', g')"
    by (auto simp add: ebind_eq_Inr)
  from Cons.IH [OF l] fmt_loop_alleles [OF f] show ?case by simp
qed

lemma random_contig_advance:
  "random_contig hdr contig_exclude contig_include g = Inr (c, g1) \<Longrightarrow> g1 = advance g"
  by (auto simp add: random_contig_def Let_def ebind_eq_Inr choice_def randbelow_def
      split: if_splits)

lemma random_base_eq: "random_base g = Inr (bases ! (g 0 mod 5), advance g)"
  by (simp add: random_base_def choice_def randbelow_def bases_def)

lemma bases_nth_mem: "bases ! (n mod 5) \<in> set bases"
proof -
  have "n mod 5 < length bases" by (simp add: bases_def)
  then show ?thesis by (rule nth_mem)
qed

text \<open>
  Claim C10.  Every record that \<open>generate_record\<close> returns has exactly two alleles, REF
  and one ALT.  Each is the entry of the list of the five symbols A, T, C, G, N at the
  index given by its own draw below 5 (the second and the third draw of the call), and
  the five symbols are distinct, so every symbol answers to exactly one value of a
  draw and the two alleles come from separate draws.  Nothing compares the two: in the
  run of the witness REF and ALT are the same symbol.
\<close>

theorem generate_record_alleles:
  "generate_record hdr contig_exclude contig_include gt_opts g = Inr (record, g') \<Longrightarrow>
   alleles record = [bases ! (g 1 mod 5), bases ! (g 2 mod 5)] \<and>
   length (alleles record) = 2 \<and> set (alleles record) \<subseteq> set bases \<and>
   distinct bases \<and> length bases = 5"
proof -
  assume run: "generate_record hdr contig_exclude contig_include gt_opts g = Inr (record, g')"
  then obtain c g1 s g4 r0 r1 g5 where
    rc: "random_contig hdr contig_exclude contig_include g = Inr (c, g1)"
    and nr: "new_record hdr (contig_name c)
               [bases ! (g1 0 mod 5), bases ! (advance g1 0 mod 5)] s = Inr r0"
    and il: "info_loop (map fst (info_defs hdr)) gt_opts r0 g4 = Inr (r1, g5)"
    and sl: "samples_loop (map fst (samples r1)) gt_opts r1 g5 = Inr (record, g')"
    by (auto simp add: generate_record_def random_base_eq ebind_eq_Inr)
  have g1: "g1 = advance g" using rc by (rule random_contig_advance)
  have "alleles r0 = [bases ! (g1 0 mod 5), bases ! (advance g1 0 mod 5)]"
    using nr by (auto simp add: new_record_def alleles_def)
  then have "alleles r0 = [bases ! (g 1 mod 5), bases ! (g 2 mod 5)]"
    by (simp add: g1 advance_def numeral_2_eq_2)
  moreover have "alleles record = alleles r0"
    using info_loop_alleles [OF il] samples_loop_alleles [OF sl] by (simp add: alleles_def)
  ultimately have a: "alleles record = [bases ! (g 1 mod 5), bases ! (g 2 mod 5)]" by simp
  have "distinct bases" "length bases = 5" by (simp_all add: bases_def)
  then show ?thesis using a bases_nth_mem by simp
qed

lemma example_run:
  "generate_record example_header None None (GtOpt HOM_REF) (rng_of_list []) =
     Inr (example_generated, rng_of_list [])"
  by (simp add: generate_record_def random_contig_def example_header_def getitem_def
      choice_def randbelow_def random_base_def bases_def randint_def new_record_def
      data_from_vcf_type_def calc_multiplicity_def field_lookup_def gt_branch_def alleles_def
      random_float_def example_generated_def results_loop_numeral replicate_two)

theorem generate_record_alleles_witness:
  "generate_record example_header None None (GtOpt HOM_REF) (rng_of_list []) =
     Inr (example_generated, rng_of_list []) \<and>
   alleles example_generated = [''A'', ''A'']"
  using example_run generate_record_alleles [OF example_run] by (simp add: bases_def)

end
